theory Spec2Isabelle
  imports Complex_Main
begin

section \<open>JavaScript numbers\<close>

text \<open>
  The simulation computes with JavaScript numbers. They are modelled as the real numbers,
  extended by the three non-finite values a JavaScript expression can produce: \<open>NaN\<close>,
  \<open>Infinity\<close> and \<open>-Infinity\<close>. Arithmetic on finite values is exact (rounding and
  overflow of the 64-bit format are not modelled), and zero has no sign: a division of a
  non-zero number by zero takes the sign of the dividend, as it does for the divisor \<open>+0\<close>.
  Everything else follows the language: \<open>NaN\<close> propagates through every operation, every
  comparison with \<open>NaN\<close> is false, \<open>Infinity - Infinity\<close>, \<open>0 * Infinity\<close>, \<open>0 / 0\<close> and
  \<open>Infinity / Infinity\<close> are \<open>NaN\<close>, and \<open>Math.sqrt\<close> of a negative number is \<open>NaN\<close>.
\<close>

datatype number = Num real | PosInf | NegInf | NaN

instantiation number :: "{plus, minus, uminus, times, inverse, modulo, ord}"
begin

fun plus_number :: "number \<Rightarrow> number \<Rightarrow> number" where
  "plus_number (Num a) (Num b) = Num (a + b)"
| "plus_number NaN _ = NaN"
| "plus_number _ NaN = NaN"
| "plus_number PosInf NegInf = NaN"
| "plus_number NegInf PosInf = NaN"
| "plus_number PosInf _ = PosInf"
| "plus_number _ PosInf = PosInf"
| "plus_number NegInf _ = NegInf"
| "plus_number _ NegInf = NegInf"

fun uminus_number :: "number \<Rightarrow> number" where
  "uminus_number (Num a) = Num (- a)"
| "uminus_number PosInf = NegInf"
| "uminus_number NegInf = PosInf"
| "uminus_number NaN = NaN"

definition minus_number :: "number \<Rightarrow> number \<Rightarrow> number" where
  "minus_number a b = a + (- b)"

fun times_number :: "number \<Rightarrow> number \<Rightarrow> number" where
  "times_number (Num a) (Num b) = Num (a * b)"
| "times_number NaN _ = NaN"
| "times_number _ NaN = NaN"
| "times_number (Num a) PosInf = (if a = 0 then NaN else if 0 < a then PosInf else NegInf)"
| "times_number (Num a) NegInf = (if a = 0 then NaN else if 0 < a then NegInf else PosInf)"
| "times_number PosInf (Num b) = (if b = 0 then NaN else if 0 < b then PosInf else NegInf)"
| "times_number NegInf (Num b) = (if b = 0 then NaN else if 0 < b then NegInf else PosInf)"
| "times_number PosInf PosInf = PosInf"
| "times_number PosInf NegInf = NegInf"
| "times_number NegInf PosInf = NegInf"
| "times_number NegInf NegInf = PosInf"

fun divide_number :: "number \<Rightarrow> number \<Rightarrow> number" where
  "divide_number (Num a) (Num b) =
     (if b = 0 then (if a = 0 then NaN else if 0 < a then PosInf else NegInf)
      else Num (a / b))"
| "divide_number NaN _ = NaN"
| "divide_number _ NaN = NaN"
| "divide_number (Num a) PosInf = Num 0"
| "divide_number (Num a) NegInf = Num 0"
| "divide_number PosInf (Num b) = (if 0 \<le> b then PosInf else NegInf)"
| "divide_number NegInf (Num b) = (if 0 \<le> b then NegInf else PosInf)"
| "divide_number PosInf PosInf = NaN"
| "divide_number PosInf NegInf = NaN"
| "divide_number NegInf PosInf = NaN"
| "divide_number NegInf NegInf = NaN"

definition inverse_number :: "number \<Rightarrow> number" where
  "inverse_number a = divide (Num 1) a"

text \<open>
  The remainder operator \<open>%\<close>: the result has the sign of the dividend,
  \<open>a - b * trunc (a / b)\<close>; it is \<open>NaN\<close> for a zero divisor and for a non-finite
  dividend, and the dividend itself for a finite dividend and an infinite divisor.
\<close>

fun modulo_number :: "number \<Rightarrow> number \<Rightarrow> number" where
  "modulo_number (Num a) (Num b) =
     (if b = 0 then NaN
      else Num (a - b * of_int (if 0 \<le> a / b then \<lfloor>a / b\<rfloor> else \<lceil>a / b\<rceil>)))"
| "modulo_number (Num a) PosInf = Num a"
| "modulo_number (Num a) NegInf = Num a"
| "modulo_number _ _ = NaN"

fun less_eq_number :: "number \<Rightarrow> number \<Rightarrow> bool" where
  "less_eq_number (Num a) (Num b) = (a \<le> b)"
| "less_eq_number NaN _ = False"
| "less_eq_number _ NaN = False"
| "less_eq_number NegInf _ = True"
| "less_eq_number _ PosInf = True"
| "less_eq_number PosInf _ = False"
| "less_eq_number _ NegInf = False"

fun less_number :: "number \<Rightarrow> number \<Rightarrow> bool" where
  "less_number (Num a) (Num b) = (a < b)"
| "less_number NaN _ = False"
| "less_number _ NaN = False"
| "less_number PosInf _ = False"
| "less_number _ NegInf = False"
| "less_number NegInf _ = True"
| "less_number _ PosInf = True"

instance ..

end

text \<open>\<open>Math.sqrt\<close>, \<open>Math.exp\<close> and \<open>Math.PI\<close>.\<close>

fun Math_sqrt :: "number \<Rightarrow> number" where
  "Math_sqrt (Num a) = (if a < 0 then NaN else Num (sqrt a))"
| "Math_sqrt PosInf = PosInf"
| "Math_sqrt NegInf = NaN"
| "Math_sqrt NaN = NaN"

fun Math_exp :: "number \<Rightarrow> number" where
  "Math_exp (Num a) = Num (exp a)"
| "Math_exp PosInf = PosInf"
| "Math_exp NegInf = Num 0"
| "Math_exp NaN = NaN"

definition Math_PI :: number where
  "Math_PI = Num pi"

text \<open>
  \<open>Math.pow (base, e)\<close> for a finite exponent \<open>e\<close> that is not an integer (the source
  raises to the powers 5.256 and -11.388 only): a negative base gives \<open>NaN\<close>, a zero
  base gives 0 or \<open>Infinity\<close> by the sign of the exponent, and so does an infinite base
  the other way round.
\<close>

fun Math_pow :: "number \<Rightarrow> real \<Rightarrow> number" where
  "Math_pow (Num b) e =
     (if 0 < b then Num (b powr e)
      else if b = 0 then (if 0 < e then Num 0 else PosInf)
      else NaN)"
| "Math_pow PosInf e = (if 0 < e then PosInf else Num 0)"
| "Math_pow NegInf e = (if 0 < e then PosInf else Num 0)"
| "Math_pow NaN e = NaN"

section \<open>The data model\<close>

text \<open>
  A data point of a trajectory, as the two classes under verification read it: a time, a
  position and the apex flag. \<open>Projectile.step\<close> creates its points with
  \<open>new DataPoint (totalTime, x, y)\<close>, which leaves the flag unset.
\<close>

record DataPoint =
  time :: number
  position :: "number \<times> number"
  apex :: bool

text \<open>
  Of the model object a projectile points back to, \<open>step\<close> reads \<open>airResistanceOn\<close> and
  \<open>altitude\<close> and calls \<open>scoreModel.checkforScored\<close>.
\<close>

record ProjectileMotionModel =
  airResistanceOn :: bool
  altitude :: number
  scoreModel :: "number list"

text \<open>
  Modelled from the spec: the score model is not among the sources. The spec (section 6)
  has the scoring collaborator consume the landing x-coordinate, so the model keeps the
  list of the coordinates it has been notified with, in order.
\<close>

definition checkforScored :: "number \<Rightarrow> ProjectileMotionModel \<Rightarrow> ProjectileMotionModel" where
  "checkforScored landedX model = model\<lparr>scoreModel := scoreModel model @ [landedX]\<rparr>"

record Projectile =
  projectileMotionModel :: ProjectileMotionModel
  totalTime :: number
  x :: number
  y :: number
  mass :: number
  diameter :: number
  dragCoefficient :: number
  xVelocity :: number
  yVelocity :: number
  velocity :: number
  xAcceleration :: number
  yAcceleration :: number
  reachedGround :: bool
  dataPoints :: "DataPoint list"

text \<open>
  The Euclidean distance of two points of the plane (\<open>Vector2.distance\<close> of the
  vector library).
\<close>

definition distance :: "number \<times> number \<Rightarrow> number \<times> number \<Rightarrow> number" where
  "distance v point =
     Math_sqrt ((fst v - fst point) * (fst v - fst point) + (snd v - snd point) * (snd v - snd point))"

text \<open>
  Modelled from the spec: the class \<open>DataPoint\<close> is not among the sources. By the spec
  (section 4.5) the nearest-point scan compares Euclidean distances, so \<open>distanceXY\<close> is
  the Euclidean distance of the data point to the given coordinates.
\<close>

definition distanceXY :: "DataPoint \<Rightarrow> number \<Rightarrow> number \<Rightarrow> number" where
  "distanceXY p px py = distance (position p) (px, py)"

section \<open>Projectile.step\<close>

text \<open>
  The air density \<open>step\<close> computes first (lines 82 to 112 of the source): the
  atmospheric model when air resistance is on, and 0 when it is off.
\<close>

definition airDensity :: "ProjectileMotionModel \<Rightarrow> number" where
  "airDensity model =
     (if airResistanceOn model then
        (let (temperature, pressure) =
           (if altitude model < Num 11000 then
              (let temperature = Num 15.04 - Num 0.00649 * altitude model
               in (temperature,
                   Num 101.29 * Math_pow ((temperature + Num 273.1) / Num 288.08) 5.256))
            else if altitude model < Num 25000 then
              (Num (- 56.46), Num 22.65 * Math_exp (Num 1.73 - Num 0.000157 * altitude model))
            else
              (let temperature = Num (- 131.21) + Num 0.00299 * altitude model
               in (temperature,
                   Num 2.488 * Math_pow ((temperature + Num 273.1) / Num 216.6) (- 11.388))))
         in pressure / (Num 0.2869 * (temperature + Num 273.1)))
      else Num 0)"

text \<open>
  One animation step. The constant \<open>ACCELERATION_DUE_TO_GRAVITY\<close> is read from a
  constants object whose version among the sources does not define it; it is the first
  argument here. The fields are assigned in the order of the source, each \<open>let\<close> being
  one assignment to \<open>this\<close> or to a local variable.
\<close>

definition step :: "real \<Rightarrow> number \<Rightarrow> Projectile \<Rightarrow> Projectile" where
  "step ACCELERATION_DUE_TO_GRAVITY dt this =
     (if reachedGround this then this\<lparr>xVelocity := Num 0, yVelocity := Num 0\<rparr>
      else
        let area = Math_PI * diameter this * diameter this / Num 4;
            dragForceX = Num 0.5 * airDensity (projectileMotionModel this) * area
                           * dragCoefficient this * velocity this * xVelocity this;
            dragForceY = Num 0.5 * airDensity (projectileMotionModel this) * area
                           * dragCoefficient this * velocity this * yVelocity this;
            this = this\<lparr>xAcceleration := - dragForceX / mass this\<rparr>;
            this = this\<lparr>yAcceleration :=
                     - Num ACCELERATION_DUE_TO_GRAVITY - dragForceY / mass this\<rparr>;
            newX = x this + xVelocity this * dt + Num 0.5 * xAcceleration this * dt * dt;
            newY = y this + yVelocity this * dt + Num 0.5 * yAcceleration this * dt * dt;
            newXVelocity = xVelocity this + xAcceleration this * dt;
            newYVelocity = yVelocity this + yAcceleration this * dt;
            (this, newX, newY) =
              (if newY \<le> Num 0 then
                 let this = this\<lparr>reachedGround := True\<rparr>;
                     timeToGround =
                       (- Math_sqrt (yVelocity this * yVelocity this
                                      - Num 2 * yAcceleration this * y this)
                        - yVelocity this) / yAcceleration this;
                     newX = x this + xVelocity this * timeToGround
                              + Num 0.5 * xAcceleration this * timeToGround * timeToGround;
                     newY = Num 0;
                     this = this\<lparr>projectileMotionModel :=
                              checkforScored newX (projectileMotionModel this)\<rparr>
                 in (this, newX, newY)
               else (this, newX, newY));
            this = this\<lparr>totalTime := totalTime this + dt\<rparr>;
            this = this\<lparr>x := newX\<rparr>;
            this = this\<lparr>y := newY\<rparr>;
            this = this\<lparr>xVelocity := newXVelocity\<rparr>;
            this = this\<lparr>yVelocity := newYVelocity\<rparr>;
            this = this\<lparr>velocity :=
                     Math_sqrt (xVelocity this * xVelocity this + yVelocity this * yVelocity this)\<rparr>
        in this\<lparr>dataPoints := dataPoints this
                  @ [\<lparr>time = totalTime this, position = (x this, y this), apex = False\<rparr>]\<rparr>)"

section \<open>Projectile.getNearestPoint\<close>

text \<open>
  The scan of \<open>getNearestPoint\<close>: the loop runs over all data points in recording order,
  the first one included, and carries the nearest point found so far with its distance.
\<close>

fun nearestLoop ::
  "number \<Rightarrow> number \<Rightarrow> DataPoint list \<Rightarrow> DataPoint \<times> number \<Rightarrow> DataPoint \<times> number" where
  "nearestLoop px py [] (nearestPoint, minDistance) = (nearestPoint, minDistance)"
| "nearestLoop px py (currentPoint # rest) (nearestPoint, minDistance) =
     (let currentDistance = distanceXY currentPoint px py
      in if currentDistance \<le> minDistance
         then nearestLoop px py rest (currentPoint, currentDistance)
         else nearestLoop px py rest (nearestPoint, minDistance))"

definition getNearestPoint ::
  "'a Projectile_scheme \<Rightarrow> number \<Rightarrow> number \<Rightarrow> DataPoint option" where
  "getNearestPoint this px py =
     (case dataPoints this of
        [] \<Rightarrow> None
      | first # _ \<Rightarrow>
          Some (fst (nearestLoop px py (dataPoints this) (first, distanceXY first px py))))"

section \<open>The tracer\<close>

text \<open>
  Modelled from the spec: the class \<open>Trajectory\<close> the tracer searches is not among the
  sources. By the spec (sections 3 and 4.6) a trajectory owns the sample sequence of one
  flight and at most one apex sample, and its nearest-point query is the scan of section
  4.5, which is \<open>getNearestPoint\<close> above. A trajectory is therefore a projectile with an
  \<open>apexPoint\<close>.
\<close>

record Trajectory = Projectile +
  apexPoint :: "DataPoint option"

record Tracer =
  positionProperty :: "number \<times> number"
  dataPointProperty :: "DataPoint option"
  isActiveProperty :: bool
  trajectories :: "Trajectory list"

definition SENSING_RADIUS :: number where
  "SENSING_RADIUS = Num 0.2"

text \<open>
  \<open>Util.toFixedNumber\<close> of the utility library rounds a number to the given count of
  decimal places, a tie away from zero, and leaves a non-finite value as it is.
\<close>

definition roundSymmetric :: "real \<Rightarrow> real" where
  "roundSymmetric r = sgn r * of_int \<lfloor>\<bar>r\<bar> + 1 / 2\<rfloor>"

fun toFixedNumber :: "number \<Rightarrow> nat \<Rightarrow> number" where
  "toFixedNumber (Num r) decimalPlaces =
     Num (roundSymmetric (r * 10 ^ decimalPlaces) / 10 ^ decimalPlaces)"
| "toFixedNumber n decimalPlaces = n"

text \<open>
  The test both methods of the tracer make on a point. \<open>TIME_PER_MINOR_DOT\<close> is a constant
  of the constants object whose version among the sources does not define it; it is the
  first argument here. A missing point (\<open>null\<close>) is not readable.
\<close>

definition pointIsReadable :: "real \<Rightarrow> DataPoint option \<Rightarrow> bool" where
  "pointIsReadable TIME_PER_MINOR_DOT point =
     (case point of
        None \<Rightarrow> False
      | Some p \<Rightarrow>
          apex p \<or> snd (position p) = Num 0
          \<or> toFixedNumber (time p * Num 1000) 0 mod Num TIME_PER_MINOR_DOT = Num 0)"

text \<open>
  \<open>updateData\<close>: the loop counts the index down from the last trajectory, so it runs
  over the reversed list.
\<close>

fun updateDataLoop :: "real \<Rightarrow> Tracer \<Rightarrow> Trajectory list \<Rightarrow> Tracer" where
  "updateDataLoop TIME_PER_MINOR_DOT this [] = this\<lparr>dataPointProperty := None\<rparr>"
| "updateDataLoop TIME_PER_MINOR_DOT this (currentTrajectory # rest) =
     (if (case apexPoint currentTrajectory of
            None \<Rightarrow> False
          | Some a \<Rightarrow> distance (position a) (positionProperty this) \<le> SENSING_RADIUS)
      then this\<lparr>dataPointProperty := apexPoint currentTrajectory\<rparr>
      else
        let point = getNearestPoint currentTrajectory
                      (fst (positionProperty this)) (snd (positionProperty this))
        in if pointIsReadable TIME_PER_MINOR_DOT point
              \<and> (case point of
                    None \<Rightarrow> False
                  | Some p \<Rightarrow> distance (position p) (positionProperty this) \<le> SENSING_RADIUS)
           then this\<lparr>dataPointProperty := point\<rparr>
           else updateDataLoop TIME_PER_MINOR_DOT this rest)"

definition updateData :: "real \<Rightarrow> Tracer \<Rightarrow> Tracer" where
  "updateData TIME_PER_MINOR_DOT this =
     updateDataLoop TIME_PER_MINOR_DOT this (rev (trajectories this))"

definition updateDataIfWithinRange :: "real \<Rightarrow> DataPoint option \<Rightarrow> Tracer \<Rightarrow> Tracer" where
  "updateDataIfWithinRange TIME_PER_MINOR_DOT point this =
     (if pointIsReadable TIME_PER_MINOR_DOT point
         \<and> (case point of
               None \<Rightarrow> False
             | Some p \<Rightarrow> distance (position p) (positionProperty this) \<le> SENSING_RADIUS)
      then this\<lparr>dataPointProperty := point\<rparr>
      else this)"

section \<open>The quantities of the specification\<close>

text \<open>
  The quantities the specification names for one step, written from its formulas
  (sections 4.2 and 4.3) over the numbers of the program: the cross-section \<open>A\<close>, the drag
  force components, the accelerations, the candidate position, and for the ground
  resolver the discriminant, the time to ground \<open>\<tau>\<close> and the landing abscissa.
\<close>

definition spec_area :: "number \<Rightarrow> number" where
  "spec_area d = Math_PI * d * d / Num 4"

definition spec_Fdx :: "Projectile \<Rightarrow> number" where
  "spec_Fdx p = Num 0.5 * airDensity (projectileMotionModel p) * spec_area (diameter p)
                  * dragCoefficient p * velocity p * xVelocity p"

definition spec_Fdy :: "Projectile \<Rightarrow> number" where
  "spec_Fdy p = Num 0.5 * airDensity (projectileMotionModel p) * spec_area (diameter p)
                  * dragCoefficient p * velocity p * yVelocity p"

definition spec_ax :: "Projectile \<Rightarrow> number" where
  "spec_ax p = - spec_Fdx p / mass p"

definition spec_ay :: "real \<Rightarrow> Projectile \<Rightarrow> number" where
  "spec_ay g p = - Num g - spec_Fdy p / mass p"

definition spec_candidateX :: "number \<Rightarrow> Projectile \<Rightarrow> number" where
  "spec_candidateX dt p = x p + xVelocity p * dt + Num 0.5 * spec_ax p * dt * dt"

definition spec_candidateY :: "real \<Rightarrow> number \<Rightarrow> Projectile \<Rightarrow> number" where
  "spec_candidateY g dt p = y p + yVelocity p * dt + Num 0.5 * spec_ay g p * dt * dt"

definition spec_discriminant :: "real \<Rightarrow> Projectile \<Rightarrow> number" where
  "spec_discriminant g p = yVelocity p * yVelocity p - Num 2 * spec_ay g p * y p"

definition spec_tau :: "real \<Rightarrow> Projectile \<Rightarrow> number" where
  "spec_tau g p = (- Math_sqrt (spec_discriminant g p) - yVelocity p) / spec_ay g p"

definition spec_xGround :: "real \<Rightarrow> Projectile \<Rightarrow> number" where
  "spec_xGround g p =
     x p + xVelocity p * spec_tau g p + Num 0.5 * spec_ax p * spec_tau g p * spec_tau g p"

text \<open>
  The atmosphere of the specification (section 4.1), over the reals: temperature in
  degrees Celsius, pressure in kilopascal and density by altitude in metres.
\<close>

definition spec_temperature :: "real \<Rightarrow> real" where
  "spec_temperature a =
     (if a < 11000 then 15.04 - 0.00649 * a
      else if a < 25000 then - 56.46
      else - 131.21 + 0.00299 * a)"

definition spec_pressure :: "real \<Rightarrow> real" where
  "spec_pressure a =
     (if a < 11000 then 101.29 * ((spec_temperature a + 273.1) / 288.08) powr 5.256
      else if a < 25000 then 22.65 * exp (1.73 - 0.000157 * a)
      else 2.488 * ((spec_temperature a + 273.1) / 216.6) powr (- 11.388))"

definition spec_density :: "real \<Rightarrow> real" where
  "spec_density a = spec_pressure a / (0.2869 * (spec_temperature a + 273.1))"

text \<open>
  The tracer's vocabulary: a sample is within the sensing radius of the probe; the apex
  of a trajectory qualifies; the nearest sample of a trajectory qualifies (it is readable
  and within the radius); a trajectory yields a match when either does.
\<close>

definition withinSensingRadius :: "Tracer \<Rightarrow> DataPoint \<Rightarrow> bool" where
  "withinSensingRadius this p \<longleftrightarrow>
     distance (position p) (positionProperty this) \<le> SENSING_RADIUS"

definition apexQualifies :: "Tracer \<Rightarrow> Trajectory \<Rightarrow> bool" where
  "apexQualifies this u \<longleftrightarrow>
     (case apexPoint u of None \<Rightarrow> False | Some a \<Rightarrow> withinSensingRadius this a)"

definition nearestOf :: "Tracer \<Rightarrow> Trajectory \<Rightarrow> DataPoint option" where
  "nearestOf this u =
     getNearestPoint u (fst (positionProperty this)) (snd (positionProperty this))"

definition nearestQualifies :: "real \<Rightarrow> Tracer \<Rightarrow> Trajectory \<Rightarrow> bool" where
  "nearestQualifies T this u \<longleftrightarrow>
     (case nearestOf this u of
        None \<Rightarrow> False
      | Some p \<Rightarrow> pointIsReadable T (Some p) \<and> withinSensingRadius this p)"

definition yieldsMatch :: "real \<Rightarrow> Tracer \<Rightarrow> Trajectory \<Rightarrow> bool" where
  "yieldsMatch T this u \<longleftrightarrow> apexQualifies this u \<or> nearestQualifies T this u"

text \<open>
  Readability in the words of the specification (section 4.6): the apex, or a
  y-coordinate of exactly 0, or a time in milliseconds that is an exact multiple of the
  minor interval.
\<close>

definition spec_readable :: "real \<Rightarrow> DataPoint \<Rightarrow> bool" where
  "spec_readable T p \<longleftrightarrow>
     apex p \<or> snd (position p) = Num 0 \<or> (time p * Num 1000) mod Num T = Num 0"

section \<open>Example states\<close>

text \<open>
  A 5 kg projectile without air resistance, 4.905 m above the ground, moving
  horizontally at 1 m/s: under a gravity of 9.81 it reaches the ground after exactly one
  second, one metre further on.
\<close>

definition fallingProjectile :: Projectile where
  "fallingProjectile =
     \<lparr>projectileMotionModel = \<lparr>airResistanceOn = False, altitude = Num 0, scoreModel = []\<rparr>,
      totalTime = Num 0, x = Num 0, y = Num 4.905, mass = Num 5, diameter = Num 0.37,
      dragCoefficient = Num 6, xVelocity = Num 1, yVelocity = Num 0, velocity = Num 1,
      xAcceleration = Num 0, yAcceleration = Num (- 9.81), reachedGround = False,
      dataPoints = []\<rparr>"

text \<open>A projectile whose two samples are at the same distance from the origin.\<close>

definition tiedProjectile :: Projectile where
  "tiedProjectile =
     fallingProjectile\<lparr>totalTime := Num 0.2, x := Num 0, y := Num 1,
       dataPoints := [\<lparr>time = Num 0.1, position = (Num 1, Num 0), apex = False\<rparr>,
                      \<lparr>time = Num 0.2, position = (Num 0, Num 1), apex = False\<rparr>]\<rparr>"

text \<open>
  A trajectory with the given samples and apex; the fields the tracer does not read are
  those of a projectile at rest. The tracer of the examples has its probe at (0, 5).
\<close>

definition exampleTrajectory :: "DataPoint list \<Rightarrow> DataPoint option \<Rightarrow> Trajectory" where
  "exampleTrajectory ps a =
     \<lparr>projectileMotionModel = \<lparr>airResistanceOn = False, altitude = Num 0, scoreModel = []\<rparr>,
      totalTime = Num 0, x = Num 0, y = Num 0, mass = Num 5, diameter = Num 0.37,
      dragCoefficient = Num 6, xVelocity = Num 0, yVelocity = Num 0, velocity = Num 0,
      xAcceleration = Num 0, yAcceleration = Num 0, reachedGround = False,
      dataPoints = ps, apexPoint = a\<rparr>"

definition exampleTracer :: "Trajectory list \<Rightarrow> Tracer" where
  "exampleTracer ts =
     \<lparr>positionProperty = (Num 0, Num 5), dataPointProperty = None, isActiveProperty = True,
      trajectories = ts\<rparr>"

definition apexSample :: DataPoint where
  "apexSample = \<lparr>time = Num 1, position = (Num 0, Num 5.1), apex = True\<rparr>"

definition risingSample :: DataPoint where
  "risingSample = \<lparr>time = Num 0.9, position = (Num 0, Num 5), apex = False\<rparr>"

definition farSample :: DataPoint where
  "farSample = \<lparr>time = Num 0.1, position = (Num 1, Num 5), apex = False\<rparr>"

definition passingSample :: DataPoint where
  "passingSample = \<lparr>time = Num 0.3, position = (Num 0, Num 5), apex = False\<rparr>"

definition offGridSample :: DataPoint where
  "offGridSample = \<lparr>time = Num 0.1004, position = (Num 0, Num 5), apex = False\<rparr>"

section \<open>The invariant of the nearest-point scan\<close>

text \<open>
  After the scan has run over the points \<open>ps\<close>, starting from the point \<open>n\<close> with its
  distance: the carried distance is that of the carried point, it is a number, no point
  seen is nearer, and the carried point is either still \<open>n\<close>, no point seen having been
  as near, or the last point seen that is as near as any.
\<close>

definition scanInv ::
  "number \<Rightarrow> number \<Rightarrow> DataPoint \<Rightarrow> DataPoint list \<Rightarrow> DataPoint \<times> number \<Rightarrow> bool" where
  "scanInv px py n ps res \<longleftrightarrow>
     snd res = distanceXY (fst res) px py
     \<and> distanceXY (fst res) px py \<noteq> NaN
     \<and> distanceXY (fst res) px py \<le> distanceXY n px py
     \<and> (\<forall>q\<in>set ps. distanceXY (fst res) px py \<le> distanceXY q px py)
     \<and> ((fst res = n \<and> (\<forall>q\<in>set ps. \<not> distanceXY q px py \<le> distanceXY n px py))
        \<or> (\<exists>i<length ps. ps ! i = fst res
              \<and> (\<forall>j. i < j \<and> j < length ps
                    \<longrightarrow> \<not> distanceXY (ps ! j) px py \<le> distanceXY (fst res) px py)))"

section \<open>Facts about the numbers\<close>

lemma pos_not_le: "Num 0 < (a::number) \<Longrightarrow> \<not> a \<le> Num 0"
  by (cases a) simp_all

lemma number_le_refl: "a \<noteq> NaN \<Longrightarrow> a \<le> (a::number)"
  by (cases a) simp_all

lemma number_le_trans: "a \<le> b \<Longrightarrow> b \<le> c \<Longrightarrow> a \<le> (c::number)"
  by (cases a; cases b; cases c) simp_all

lemma number_le_total: "a \<noteq> NaN \<Longrightarrow> b \<noteq> NaN \<Longrightarrow> \<not> a \<le> b \<Longrightarrow> b \<le> (a::number)"
  by (cases a; cases b) simp_all

lemma number_add_NaN: "a + NaN = (NaN::number)"
  by (cases a) simp_all

lemma number_mult_NaN: "a * NaN = (NaN::number)"
  by (cases a) simp_all

lemma sqrt_negative: "a < Num 0 \<Longrightarrow> Math_sqrt a = NaN"
  by (cases a) simp_all

lemma sqrt_gravity_squared: "sqrt (962361 / 10000) = 981 / 100"
  by (rule real_sqrt_unique) (simp_all add: power2_eq_square)

lemma sqrt_hundredth: "sqrt (1 / 100) = 1 / 10"
  by (rule real_sqrt_unique) (simp_all add: power2_eq_square)

section \<open>One step of a projectile\<close>

lemmas spec_defs = spec_area_def spec_Fdx_def spec_Fdy_def spec_ax_def spec_ay_def
  spec_candidateX_def spec_candidateY_def spec_discriminant_def spec_tau_def spec_xGround_def

lemmas step_eval = spec_defs airDensity_def checkforScored_def minus_number_def Math_PI_def
  sqrt_gravity_squared

text \<open>
  The two branches of a step of a projectile in flight, in the quantities of the
  specification. The branch is chosen by the test \<open>newY <= 0\<close> of the source, which a
  candidate height \<open>NaN\<close> fails.
\<close>

lemma step_flight:
  assumes "\<not> reachedGround p" and "\<not> spec_candidateY g dt p \<le> Num 0"
  shows "step g dt p =
    p\<lparr>xAcceleration := spec_ax p, yAcceleration := spec_ay g p,
      totalTime := totalTime p + dt,
      x := spec_candidateX dt p, y := spec_candidateY g dt p,
      xVelocity := xVelocity p + spec_ax p * dt,
      yVelocity := yVelocity p + spec_ay g p * dt,
      velocity := Math_sqrt ((xVelocity p + spec_ax p * dt) * (xVelocity p + spec_ax p * dt)
                    + (yVelocity p + spec_ay g p * dt) * (yVelocity p + spec_ay g p * dt)),
      dataPoints := dataPoints p @
        [\<lparr>time = totalTime p + dt, position = (spec_candidateX dt p, spec_candidateY g dt p),
          apex = False\<rparr>]\<rparr>"
  using assms by (simp add: step_def Let_def spec_defs)

lemma step_ground:
  assumes "\<not> reachedGround p" and "spec_candidateY g dt p \<le> Num 0"
  shows "step g dt p =
    p\<lparr>xAcceleration := spec_ax p, yAcceleration := spec_ay g p,
      reachedGround := True,
      projectileMotionModel := checkforScored (spec_xGround g p) (projectileMotionModel p),
      totalTime := totalTime p + dt,
      x := spec_xGround g p, y := Num 0,
      xVelocity := xVelocity p + spec_ax p * dt,
      yVelocity := yVelocity p + spec_ay g p * dt,
      velocity := Math_sqrt ((xVelocity p + spec_ax p * dt) * (xVelocity p + spec_ax p * dt)
                    + (yVelocity p + spec_ay g p * dt) * (yVelocity p + spec_ay g p * dt)),
      dataPoints := dataPoints p @
        [\<lparr>time = totalTime p + dt, position = (spec_xGround g p, Num 0), apex = False\<rparr>]\<rparr>"
  using assms by (simp add: step_def Let_def spec_defs)

text \<open>
  On finite inputs with a non-zero mass the quantities of the specification are the real
  numbers its formulas denote: no \<open>NaN\<close> and no infinity arises before the square root of
  the ground resolver.
\<close>

lemma spec_quantities_finite:
  assumes "airDensity (projectileMotionModel p) = Num \<rho>" and "diameter p = Num d"
    and "dragCoefficient p = Num c" and "velocity p = Num s"
    and "xVelocity p = Num vx" and "yVelocity p = Num vy"
    and "mass p = Num m" and "m \<noteq> 0" and "x p = Num x0" and "y p = Num y0"
  shows "spec_ax p = Num (- (0.5 * \<rho> * (pi * d * d / 4) * c * s * vx) / m)"
    and "spec_ay g p = Num (- g - 0.5 * \<rho> * (pi * d * d / 4) * c * s * vy / m)"
    and "spec_candidateX (Num h) p =
          Num (x0 + vx * h + 0.5 * (- (0.5 * \<rho> * (pi * d * d / 4) * c * s * vx) / m) * h * h)"
    and "spec_candidateY g (Num h) p =
          Num (y0 + vy * h + 0.5 * (- g - 0.5 * \<rho> * (pi * d * d / 4) * c * s * vy / m) * h * h)"
    and "spec_discriminant g p =
          Num (vy * vy - 2 * (- g - 0.5 * \<rho> * (pi * d * d / 4) * c * s * vy / m) * y0)"
  using assms by (simp_all add: spec_defs Math_PI_def minus_number_def)

text \<open>
  In exact arithmetic a step from a height of at least 0 whose candidate height is at
  most 0 has a discriminant of at least 0: the parabola through the pre-step point has
  a root.
\<close>

lemma ground_discriminant_nonneg:
  fixes y0 v a t :: real
  assumes "0 \<le> y0" and "y0 + v * t + 1 / 2 * a * t * t \<le> 0"
  shows "0 \<le> v * v - 2 * a * y0"
proof (cases "a * y0 \<le> 0")
  case True
  have "0 \<le> v * v" by simp
  with True show ?thesis by linarith
next
  case False
  with assms(1) have a: "0 < a"
    by (metis linorder_not_le mult_nonpos_nonneg)
  have "(a * t + v) * (a * t + v)
      = 2 * a * (y0 + v * t + 1 / 2 * a * t * t) + (v * v - 2 * a * y0)"
    by (simp add: algebra_simps)
  moreover have "2 * a * (y0 + v * t + 1 / 2 * a * t * t) \<le> 0"
    using a assms(2) by (simp add: mult_nonneg_nonpos)
  moreover have "0 \<le> (a * t + v) * (a * t + v)" by simp
  ultimately show ?thesis by linarith
qed

lemma step_ground_discriminant_finite:
  assumes "airDensity (projectileMotionModel p) = Num \<rho>" and "diameter p = Num d"
    and "dragCoefficient p = Num c" and "velocity p = Num s"
    and "xVelocity p = Num vx" and "yVelocity p = Num vy"
    and "mass p = Num m" and "m \<noteq> 0" and "x p = Num x0" and "y p = Num y0"
    and "0 \<le> y0" and "spec_candidateY g (Num h) p \<le> Num 0"
  shows "\<not> spec_discriminant g p < Num 0"
proof -
  let ?a = "- g - 0.5 * \<rho> * (pi * d * d / 4) * c * s * vy / m"
  have "y0 + vy * h + 1 / 2 * ?a * h * h \<le> 0"
    using assms(12) spec_quantities_finite(4) [OF assms(1-10), of g h] by simp
  from ground_discriminant_nonneg [OF assms(11) this]
  show ?thesis
    using spec_quantities_finite(5) [OF assms(1-10), of g] by simp
qed

text \<open>
  Claim C3. For a projectile that has reached the ground, and every time step, \<open>step\<close>
  does not integrate: it sets the horizontal and the vertical velocity to zero and
  leaves every other field as it is, among them the position, the elapsed time, the
  acceleration, the samples (none is appended) and the score model (it is not notified).
\<close>

theorem C3_step_on_ground:
  "reachedGround p \<Longrightarrow> step g dt p = p\<lparr>xVelocity := Num 0, yVelocity := Num 0\<rparr>"
  by (simp add: step_def)

theorem C3_step_on_ground_witness:
  "reachedGround (fallingProjectile\<lparr>y := Num 0, reachedGround := True\<rparr>)
   \<and> step 9.81 (Num 0.016) (fallingProjectile\<lparr>y := Num 0, reachedGround := True\<rparr>)
     = fallingProjectile\<lparr>y := Num 0, reachedGround := True, xVelocity := Num 0\<rparr>"
proof -
  have h: "reachedGround (fallingProjectile\<lparr>y := Num 0, reachedGround := True\<rparr>)" by simp
  from C3_step_on_ground [OF h, of "9.81" "Num 0.016"] h show ?thesis
    by (simp add: fallingProjectile_def)
qed

text \<open>
  Claim C2. For a projectile in flight and a time step \<open>dt > 0\<close> whose candidate height
  is above 0, the state after \<open>step\<close> is the state before with the accelerations
  \<open>ax = - Fdx / mass\<close> and \<open>ay = - g - Fdy / mass\<close> of the drag forces computed from the
  previous velocity and the previous scalar speed, the candidate position, the velocity
  \<open>(vx + ax dt, vy + ay dt)\<close>, the elapsed time increased by \<open>dt\<close>, the scalar speed
  recomputed as the magnitude of the new velocity, and exactly one sample, of the new
  time and position, appended. No other field changes; the score model is not notified.
\<close>

theorem C2_step_in_flight:
  assumes "\<not> reachedGround p" and "Num 0 < dt" and "Num 0 < spec_candidateY g dt p"
  shows "step g dt p =
    p\<lparr>xAcceleration := spec_ax p, yAcceleration := spec_ay g p,
      totalTime := totalTime p + dt,
      x := spec_candidateX dt p, y := spec_candidateY g dt p,
      xVelocity := xVelocity p + spec_ax p * dt,
      yVelocity := yVelocity p + spec_ay g p * dt,
      velocity := Math_sqrt ((xVelocity p + spec_ax p * dt) * (xVelocity p + spec_ax p * dt)
                    + (yVelocity p + spec_ay g p * dt) * (yVelocity p + spec_ay g p * dt)),
      dataPoints := dataPoints p @
        [\<lparr>time = totalTime p + dt, position = (spec_candidateX dt p, spec_candidateY g dt p),
          apex = False\<rparr>]\<rparr>"
  using assms(1) pos_not_le [OF assms(3)] by (rule step_flight)

theorem C2_step_in_flight_witness:
  "\<not> reachedGround fallingProjectile \<and> Num 0 < Num 0.5
   \<and> Num 0 < spec_candidateY 9.81 (Num 0.5) fallingProjectile
   \<and> step 9.81 (Num 0.5) fallingProjectile =
       fallingProjectile\<lparr>totalTime := Num 0.5, x := Num 0.5, y := Num 3.67875,
         yVelocity := Num (- 4.905), velocity := Math_sqrt (Num 25.059025),
         dataPoints := [\<lparr>time = Num 0.5, position = (Num 0.5, Num 3.67875), apex = False\<rparr>]\<rparr>"
proof -
  have 1: "\<not> reachedGround fallingProjectile" by (simp add: fallingProjectile_def)
  have 2: "Num 0 < Num 0.5" by simp
  have 3: "Num 0 < spec_candidateY 9.81 (Num 0.5) fallingProjectile"
    by (simp add: fallingProjectile_def step_eval)
  from C2_step_in_flight [OF 1 2 3] 1 2 3 show ?thesis
    by (simp add: fallingProjectile_def step_eval)
qed

text \<open>
  Claim C1, as amended. For a projectile in flight at a height above 0 and a time step
  whose candidate height is at most 0, \<open>step\<close> resolves the ground contact from the
  pre-step state: with \<open>\<tau> = (- sqrt (vy\<^sup>2 - 2 ay y) - vy) / ay\<close> the landing abscissa is
  \<open>xGround = x + vx \<tau> + 0.5 ax \<tau>\<^sup>2\<close>, the height becomes exactly 0, \<open>reachedGround\<close>
  becomes true, the score model is notified with \<open>xGround\<close>, and exactly one sample is
  appended, at \<open>(xGround, 0)\<close>. The elapsed time, and with it the time of that sample, is
  the pre-step time plus the whole step \<open>dt\<close>, and the velocity is advanced by the
  whole step as well: \<open>\<tau>\<close> enters the abscissa only.
\<close>

theorem C1_step_ground_contact:
  assumes "\<not> reachedGround p" and "Num 0 < y p" and "spec_candidateY g dt p \<le> Num 0"
  shows "step g dt p =
    p\<lparr>xAcceleration := spec_ax p, yAcceleration := spec_ay g p,
      reachedGround := True,
      projectileMotionModel := checkforScored (spec_xGround g p) (projectileMotionModel p),
      totalTime := totalTime p + dt,
      x := spec_xGround g p, y := Num 0,
      xVelocity := xVelocity p + spec_ax p * dt,
      yVelocity := yVelocity p + spec_ay g p * dt,
      velocity := Math_sqrt ((xVelocity p + spec_ax p * dt) * (xVelocity p + spec_ax p * dt)
                    + (yVelocity p + spec_ay g p * dt) * (yVelocity p + spec_ay g p * dt)),
      dataPoints := dataPoints p @
        [\<lparr>time = totalTime p + dt, position = (spec_xGround g p, Num 0), apex = False\<rparr>]\<rparr>"
  using assms(1,3) by (rule step_ground)

theorem C1_step_ground_contact_witness:
  "\<not> reachedGround fallingProjectile \<and> Num 0 < y fallingProjectile
   \<and> spec_candidateY 9.81 (Num 2) fallingProjectile \<le> Num 0
   \<and> spec_tau 9.81 fallingProjectile = Num 1
   \<and> spec_xGround 9.81 fallingProjectile = Num 1
   \<and> step 9.81 (Num 2) fallingProjectile =
       fallingProjectile\<lparr>reachedGround := True,
         projectileMotionModel :=
           \<lparr>airResistanceOn = False, altitude = Num 0, scoreModel = [Num 1]\<rparr>,
         totalTime := Num 2, x := Num 1, y := Num 0,
         yVelocity := Num (- 19.62), velocity := Math_sqrt (Num 385.9444),
         dataPoints := [\<lparr>time = Num 2, position = (Num 1, Num 0), apex = False\<rparr>]\<rparr>"
proof -
  have 1: "\<not> reachedGround fallingProjectile" by (simp add: fallingProjectile_def)
  have 2: "Num 0 < y fallingProjectile" by (simp add: fallingProjectile_def)
  have 3: "spec_candidateY 9.81 (Num 2) fallingProjectile \<le> Num 0"
    by (simp add: fallingProjectile_def step_eval)
  from C1_step_ground_contact [OF 1 2 3] 1 2 3 show ?thesis
    by (simp add: fallingProjectile_def step_eval)
qed

text \<open>
  Claim C1 as stated fails in the time of the final sample. The example projectile, 4.905 m
  up, stepped by 2 s under a gravity of 9.81, touches the ground after \<open>\<tau> = 1\<close> s, so
  the claim puts the final sample at the time 0 + 1; the sample \<open>step\<close> appends has the
  time 0 + 2.
\<close>

theorem C1_step_ground_contact_counterexample:
  "\<not> reachedGround fallingProjectile \<and> Num 0 < y fallingProjectile
   \<and> spec_candidateY 9.81 (Num 2) fallingProjectile \<le> Num 0
   \<and> totalTime fallingProjectile + spec_tau 9.81 fallingProjectile = Num 1
   \<and> dataPoints (step 9.81 (Num 2) fallingProjectile)
       = [\<lparr>time = Num 2, position = (Num 1, Num 0), apex = False\<rparr>]"
  by (simp add: step_def Let_def fallingProjectile_def step_eval)

text \<open>
  The ground resolver takes the square root of the discriminant \<open>vy\<^sup>2 - 2 ay y\<close> with
  no test before it. Were the discriminant negative, the square root would be \<open>NaN\<close>
  and \<open>step\<close> would commit \<open>NaN\<close> as the abscissa. By
  \<open>step_ground_discriminant_finite\<close> exact arithmetic on finite values never takes
  this path from a height of at least 0; whether the rounding of the 64-bit format can
  take it is beyond the numbers of this theory.
\<close>

lemma step_ground_NaN:
  assumes "\<not> reachedGround p" and "spec_candidateY g dt p \<le> Num 0"
    and "spec_discriminant g p < Num 0"
  shows "spec_tau g p = NaN \<and> x (step g dt p) = NaN \<and> y (step g dt p) = Num 0
    \<and> reachedGround (step g dt p)"
proof -
  have tau: "spec_tau g p = NaN"
    using sqrt_negative [OF assms(3)] by (simp add: spec_tau_def minus_number_def)
  then have xg: "spec_xGround g p = NaN"
    by (simp add: spec_xGround_def number_add_NaN number_mult_NaN)
  show ?thesis
    using tau xg by (simp add: step_ground [OF assms(1,2)])
qed

text \<open>
  Claim C6, as amended. \<open>step\<close> validates nothing: the source contains no test of
  \<open>dt\<close>, of the mass or of the diameter. For every time step, a time step of 0 or
  below included, and every mass and diameter, negative ones included, it makes the
  update it makes on valid input: on the ground it zeroes the velocity; in flight with a
  candidate height of at most 0 it resolves the ground contact; and in flight otherwise
  it commits the candidate position and velocity. In flight it advances the elapsed time
  by \<open>dt\<close> and appends exactly one sample either way.
\<close>

theorem C6_step_no_validation:
  "step g dt p =
     (if reachedGround p then p\<lparr>xVelocity := Num 0, yVelocity := Num 0\<rparr>
      else if spec_candidateY g dt p \<le> Num 0 then
        p\<lparr>xAcceleration := spec_ax p, yAcceleration := spec_ay g p,
          reachedGround := True,
          projectileMotionModel := checkforScored (spec_xGround g p) (projectileMotionModel p),
          totalTime := totalTime p + dt,
          x := spec_xGround g p, y := Num 0,
          xVelocity := xVelocity p + spec_ax p * dt,
          yVelocity := yVelocity p + spec_ay g p * dt,
          velocity := Math_sqrt ((xVelocity p + spec_ax p * dt) * (xVelocity p + spec_ax p * dt)
                        + (yVelocity p + spec_ay g p * dt) * (yVelocity p + spec_ay g p * dt)),
          dataPoints := dataPoints p @
            [\<lparr>time = totalTime p + dt, position = (spec_xGround g p, Num 0), apex = False\<rparr>]\<rparr>
      else
        p\<lparr>xAcceleration := spec_ax p, yAcceleration := spec_ay g p,
          totalTime := totalTime p + dt,
          x := spec_candidateX dt p, y := spec_candidateY g dt p,
          xVelocity := xVelocity p + spec_ax p * dt,
          yVelocity := yVelocity p + spec_ay g p * dt,
          velocity := Math_sqrt ((xVelocity p + spec_ax p * dt) * (xVelocity p + spec_ax p * dt)
                        + (yVelocity p + spec_ay g p * dt) * (yVelocity p + spec_ay g p * dt)),
          dataPoints := dataPoints p @
            [\<lparr>time = totalTime p + dt,
              position = (spec_candidateX dt p, spec_candidateY g dt p), apex = False\<rparr>]\<rparr>)"
proof (cases "reachedGround p")
  case True
  then show ?thesis by (simp add: step_def)
next
  case False
  show ?thesis
  proof (cases "spec_candidateY g dt p \<le> Num 0")
    case True
    show ?thesis using False True by (simp only: step_ground [OF False True] if_True if_False)
  next
    case notGround: False
    show ?thesis using False notGround
      by (simp only: step_flight [OF False notGround] if_True if_False)
  qed
qed

theorem C6_step_no_validation_witness:
  "Num (- 0.5) \<le> Num 0
   \<and> mass (fallingProjectile\<lparr>mass := Num (- 5), diameter := Num (- 0.37)\<rparr>) < Num 0
   \<and> diameter (fallingProjectile\<lparr>mass := Num (- 5), diameter := Num (- 0.37)\<rparr>) < Num 0
   \<and> step 9.81 (Num (- 0.5)) (fallingProjectile\<lparr>mass := Num (- 5), diameter := Num (- 0.37)\<rparr>)
       = fallingProjectile\<lparr>mass := Num (- 5), diameter := Num (- 0.37),
           totalTime := Num (- 0.5), x := Num (- 0.5), y := Num 3.67875,
           yVelocity := Num 4.905, velocity := Math_sqrt (Num 25.059025),
           dataPoints :=
             [\<lparr>time = Num (- 0.5), position = (Num (- 0.5), Num 3.67875), apex = False\<rparr>]\<rparr>
   \<and> step 9.81 (Num (- 2)) (fallingProjectile\<lparr>mass := Num (- 5), diameter := Num (- 0.37)\<rparr>)
       = fallingProjectile\<lparr>mass := Num (- 5), diameter := Num (- 0.37),
           reachedGround := True,
           projectileMotionModel :=
             \<lparr>airResistanceOn = False, altitude = Num 0, scoreModel = [Num 1]\<rparr>,
           totalTime := Num (- 2), x := Num 1, y := Num 0,
           yVelocity := Num 19.62, velocity := Math_sqrt (Num 385.9444),
           dataPoints := [\<lparr>time = Num (- 2), position = (Num 1, Num 0), apex = False\<rparr>]\<rparr>
   \<and> step 9.81 (Num (- 0.5)) (fallingProjectile\<lparr>reachedGround := True\<rparr>)
       = fallingProjectile\<lparr>reachedGround := True, xVelocity := Num 0\<rparr>"
proof -
  let ?p = "fallingProjectile\<lparr>mass := Num (- 5), diameter := Num (- 0.37)\<rparr>"
  let ?l = "fallingProjectile\<lparr>reachedGround := True\<rparr>"
  have a: "step 9.81 (Num (- 0.5)) ?p
       = fallingProjectile\<lparr>mass := Num (- 5), diameter := Num (- 0.37),
           totalTime := Num (- 0.5), x := Num (- 0.5), y := Num 3.67875,
           yVelocity := Num 4.905, velocity := Math_sqrt (Num 25.059025),
           dataPoints :=
             [\<lparr>time = Num (- 0.5), position = (Num (- 0.5), Num 3.67875), apex = False\<rparr>]\<rparr>"
    unfolding C6_step_no_validation [of "9.81" "Num (- 0.5)" ?p]
    by (simp add: fallingProjectile_def step_eval)
  have b: "step 9.81 (Num (- 2)) ?p
       = fallingProjectile\<lparr>mass := Num (- 5), diameter := Num (- 0.37),
           reachedGround := True,
           projectileMotionModel :=
             \<lparr>airResistanceOn = False, altitude = Num 0, scoreModel = [Num 1]\<rparr>,
           totalTime := Num (- 2), x := Num 1, y := Num 0,
           yVelocity := Num 19.62, velocity := Math_sqrt (Num 385.9444),
           dataPoints := [\<lparr>time = Num (- 2), position = (Num 1, Num 0), apex = False\<rparr>]\<rparr>"
    unfolding C6_step_no_validation [of "9.81" "Num (- 2)" ?p]
    by (simp add: fallingProjectile_def step_eval)
  have c: "step 9.81 (Num (- 0.5)) ?l = fallingProjectile\<lparr>reachedGround := True, xVelocity := Num 0\<rparr>"
    unfolding C6_step_no_validation [of "9.81" "Num (- 0.5)" ?l]
    by (simp add: fallingProjectile_def)
  from a b c show ?thesis by (simp add: fallingProjectile_def)
qed

text \<open>
  Claim C6 as stated fails: a time step of -0.5 s is not rejected before the integration
  begins. The step integrates backwards: the elapsed time becomes -0.5 s, the projectile
  moves to \<open>x = -0.5\<close>, and a sample of that time and position is appended.
\<close>

theorem C6_step_no_validation_counterexample:
  "Num (- 0.5) \<le> Num 0 \<and> \<not> reachedGround fallingProjectile
   \<and> step 9.81 (Num (- 0.5)) fallingProjectile
       = fallingProjectile\<lparr>totalTime := Num (- 0.5), x := Num (- 0.5), y := Num 3.67875,
           yVelocity := Num 4.905, velocity := Math_sqrt (Num 25.059025),
           dataPoints :=
             [\<lparr>time = Num (- 0.5), position = (Num (- 0.5), Num 3.67875), apex = False\<rparr>]\<rparr>
   \<and> step 9.81 (Num (- 0.5)) fallingProjectile \<noteq> fallingProjectile"
  by (simp add: step_def Let_def fallingProjectile_def step_eval)

section \<open>The atmosphere\<close>

lemma kelvin_pos: "0 < spec_temperature a + 273.1"
  by (simp add: spec_temperature_def)

text \<open>
  With air resistance on and a finite altitude, the density the source computes is the
  one of the specification: in each of the three layers the base of the power is
  positive and the divisor is not 0, so that no \<open>NaN\<close> and no infinity arises.
\<close>

lemma airDensity_on:
  assumes "airResistanceOn m" and "altitude m = Num a"
  shows "airDensity m = Num (spec_density a)"
proof -
  have k: "0 < spec_temperature a + 273.1" by (rule kelvin_pos)
  show ?thesis
  proof (cases "a < 11000")
    case True
    with k assms show ?thesis
      by (simp add: airDensity_def spec_density_def spec_pressure_def spec_temperature_def
            minus_number_def)
  next
    case False
    note high = this
    show ?thesis
    proof (cases "a < 25000")
      case True
      with high assms show ?thesis
        by (simp add: airDensity_def spec_density_def spec_pressure_def spec_temperature_def
              minus_number_def)
    next
      case False
      with high k assms show ?thesis
        by (simp add: airDensity_def spec_density_def spec_pressure_def spec_temperature_def
              minus_number_def)
    qed
  qed
qed

lemma airDensity_off: "\<not> airResistanceOn m \<Longrightarrow> airDensity m = Num 0"
  by (simp add: airDensity_def)

lemma step_accelerations:
  "\<not> reachedGround p \<Longrightarrow>
     xAcceleration (step g dt p) = spec_ax p \<and> yAcceleration (step g dt p) = spec_ay g p"
  by (cases "spec_candidateY g dt p \<le> Num 0") (simp_all add: step_ground step_flight)

text \<open>
  Claim C9. For every altitude \<open>a\<close>, with air resistance on the air density is
  \<open>P / (0.2869 (T + 273.1))\<close> for the temperature \<open>T\<close> and the pressure \<open>P\<close> of the
  piecewise atmosphere (below 11000 m, from there to below 25000 m, and from 25000 m
  on); with air resistance off it is exactly 0 at every altitude. It is this density
  that enters the drag forces, and through them the accelerations, of a step.
\<close>

theorem C9_airDensity_atmosphere:
  "(airResistanceOn m \<and> altitude m = Num a \<longrightarrow>
      airDensity m = Num (spec_density a)
      \<and> spec_density a = spec_pressure a / (0.2869 * (spec_temperature a + 273.1))
      \<and> (a < 11000 \<longrightarrow> spec_temperature a = 15.04 - 0.00649 * a
            \<and> spec_pressure a = 101.29 * ((spec_temperature a + 273.1) / 288.08) powr 5.256)
      \<and> (11000 \<le> a \<and> a < 25000 \<longrightarrow> spec_temperature a = - 56.46
            \<and> spec_pressure a = 22.65 * exp (1.73 - 0.000157 * a))
      \<and> (25000 \<le> a \<longrightarrow> spec_temperature a = - 131.21 + 0.00299 * a
            \<and> spec_pressure a
                = 2.488 * ((spec_temperature a + 273.1) / 216.6) powr (- 11.388)))
   \<and> (\<not> airResistanceOn m \<longrightarrow> airDensity m = Num 0)
   \<and> (\<not> reachedGround p \<and> projectileMotionModel p = m \<longrightarrow>
        xAcceleration (step g dt p)
          = - (Num 0.5 * airDensity m * (Math_PI * diameter p * diameter p / Num 4)
                * dragCoefficient p * velocity p * xVelocity p) / mass p
        \<and> yAcceleration (step g dt p)
          = - Num g - (Num 0.5 * airDensity m * (Math_PI * diameter p * diameter p / Num 4)
                * dragCoefficient p * velocity p * yVelocity p) / mass p)"
proof (intro conjI impI)
  assume "airResistanceOn m \<and> altitude m = Num a"
  then show "airDensity m = Num (spec_density a)" by (simp add: airDensity_on)
next
  show "spec_density a = spec_pressure a / (0.2869 * (spec_temperature a + 273.1))"
    by (simp add: spec_density_def)
next
  assume "a < 11000"
  then show "spec_temperature a = 15.04 - 0.00649 * a"
    and "spec_pressure a = 101.29 * ((spec_temperature a + 273.1) / 288.08) powr 5.256"
    by (simp_all add: spec_temperature_def spec_pressure_def)
next
  assume "11000 \<le> a \<and> a < 25000"
  then show "spec_temperature a = - 56.46"
    and "spec_pressure a = 22.65 * exp (1.73 - 0.000157 * a)"
    by (simp_all add: spec_temperature_def spec_pressure_def)
next
  assume "25000 \<le> a"
  then show "spec_temperature a = - 131.21 + 0.00299 * a"
    and "spec_pressure a = 2.488 * ((spec_temperature a + 273.1) / 216.6) powr (- 11.388)"
    by (simp_all add: spec_temperature_def spec_pressure_def)
next
  assume "\<not> airResistanceOn m"
  then show "airDensity m = Num 0" by (rule airDensity_off)
next
  assume h: "\<not> reachedGround p \<and> projectileMotionModel p = m"
  then show "xAcceleration (step g dt p)
          = - (Num 0.5 * airDensity m * (Math_PI * diameter p * diameter p / Num 4)
                * dragCoefficient p * velocity p * xVelocity p) / mass p"
    and "yAcceleration (step g dt p)
          = - Num g - (Num 0.5 * airDensity m * (Math_PI * diameter p * diameter p / Num 4)
                * dragCoefficient p * velocity p * yVelocity p) / mass p"
    using step_accelerations [of p g dt] by (auto simp: spec_defs)
qed

theorem C9_airDensity_atmosphere_witness:
  "airDensity \<lparr>airResistanceOn = True, altitude = Num 12000, scoreModel = []\<rparr>
     = Num (22.65 * exp (1.73 - 0.000157 * 12000) / (0.2869 * (- 56.46 + 273.1)))
   \<and> airDensity \<lparr>airResistanceOn = True, altitude = Num 0, scoreModel = []\<rparr>
     = Num (101.29 * ((15.04 + 273.1) / 288.08) powr 5.256 / (0.2869 * (15.04 + 273.1)))
   \<and> airDensity \<lparr>airResistanceOn = True, altitude = Num 30000, scoreModel = []\<rparr>
     = Num (2.488 * ((- 131.21 + 0.00299 * 30000 + 273.1) / 216.6) powr (- 11.388)
            / (0.2869 * (- 131.21 + 0.00299 * 30000 + 273.1)))
   \<and> airDensity \<lparr>airResistanceOn = False, altitude = Num 12000, scoreModel = []\<rparr> = Num 0
   \<and> xAcceleration (step 9.81 (Num 0.5) fallingProjectile) = Num 0
   \<and> yAcceleration (step 9.81 (Num 0.5) fallingProjectile) = Num (- 9.81)"
proof -
  let ?on = "\<lambda>a. \<lparr>airResistanceOn = True, altitude = Num a, scoreModel = []\<rparr>"
  let ?off = "\<lparr>airResistanceOn = False, altitude = Num 12000, scoreModel = []\<rparr>"
  have mid: "airDensity (?on 12000) = Num (spec_density 12000)"
    "spec_density 12000 = spec_pressure 12000 / (0.2869 * (spec_temperature 12000 + 273.1))"
    "spec_temperature 12000 = - 56.46"
    "spec_pressure 12000 = 22.65 * exp (1.73 - 0.000157 * 12000)"
    using C9_airDensity_atmosphere [of "?on 12000" 12000] by simp_all
  have low: "airDensity (?on 0) = Num (spec_density 0)"
    "spec_density 0 = spec_pressure 0 / (0.2869 * (spec_temperature 0 + 273.1))"
    "spec_temperature 0 = 15.04 - 0.00649 * 0"
    "spec_pressure 0 = 101.29 * ((spec_temperature 0 + 273.1) / 288.08) powr 5.256"
    using C9_airDensity_atmosphere [of "?on 0" 0] by simp_all
  have high: "airDensity (?on 30000) = Num (spec_density 30000)"
    "spec_density 30000 = spec_pressure 30000 / (0.2869 * (spec_temperature 30000 + 273.1))"
    "spec_temperature 30000 = - 131.21 + 0.00299 * 30000"
    "spec_pressure 30000
       = 2.488 * ((spec_temperature 30000 + 273.1) / 216.6) powr (- 11.388)"
    using C9_airDensity_atmosphere [of "?on 30000" 30000] by simp_all
  have off: "airDensity ?off = Num 0"
    using C9_airDensity_atmosphere [of ?off] by simp
  have acc: "xAcceleration (step 9.81 (Num 0.5) fallingProjectile) = Num 0
      \<and> yAcceleration (step 9.81 (Num 0.5) fallingProjectile) = Num (- 9.81)"
    using C9_airDensity_atmosphere
      [of "projectileMotionModel fallingProjectile" _ fallingProjectile "9.81" "Num 0.5"]
    by (simp add: fallingProjectile_def airDensity_def Math_PI_def minus_number_def)
  have 1: "airDensity (?on 12000)
      = Num (22.65 * exp (1.73 - 0.000157 * 12000) / (0.2869 * (- 56.46 + 273.1)))"
    by (simp only: mid)
  have 2: "airDensity (?on 0)
      = Num (101.29 * ((15.04 + 273.1) / 288.08) powr 5.256 / (0.2869 * (15.04 + 273.1)))"
    unfolding low by simp
  have 3: "airDensity (?on 30000)
      = Num (2.488 * ((- 131.21 + 0.00299 * 30000 + 273.1) / 216.6) powr (- 11.388)
            / (0.2869 * (- 131.21 + 0.00299 * 30000 + 273.1)))"
    by (simp only: high)
  from 1 2 3 off acc show ?thesis by blast
qed

section \<open>The nearest point\<close>

lemma nearestLoop_append:
  "nearestLoop px py (ps @ qs) acc = nearestLoop px py qs (nearestLoop px py ps acc)"
  by (induction ps arbitrary: acc) (auto simp: Let_def split: prod.splits)

lemma nearestLoop_snoc:
  "nearestLoop px py (ps @ [q]) acc =
     (if distanceXY q px py \<le> snd (nearestLoop px py ps acc)
      then (q, distanceXY q px py) else nearestLoop px py ps acc)"
  by (cases "nearestLoop px py ps acc") (simp add: nearestLoop_append Let_def)

text \<open>
  The invariant holds after every prefix of the scan, provided no distance is \<open>NaN\<close>:
  by induction on the points scanned so far, the last one taken off.
\<close>

lemma nearestLoop_inv:
  assumes "distanceXY n px py \<noteq> NaN" and "\<forall>q\<in>set ps. distanceXY q px py \<noteq> NaN"
  shows "scanInv px py n ps (nearestLoop px py ps (n, distanceXY n px py))"
  using assms(2)
proof (induction ps rule: rev_induct)
  case Nil
  with assms(1) show ?case by (simp add: scanInv_def number_le_refl)
next
  case (snoc q ps)
  let ?res = "nearestLoop px py ps (n, distanceXY n px py)"
  let ?d = "\<lambda>p. distanceXY p px py"
  from snoc have inv: "scanInv px py n ps ?res" and dq: "?d q \<noteq> NaN" by simp_all
  show ?case
  proof (cases "?d q \<le> snd ?res")
    case True
    then have res': "nearestLoop px py (ps @ [q]) (n, ?d n) = (q, ?d q)"
      by (simp add: nearestLoop_snoc)
    from True inv have le_r: "?d q \<le> ?d (fst ?res)" by (simp add: scanInv_def)
    have "?d q \<le> ?d n"
      using le_r inv by (auto simp: scanInv_def intro: number_le_trans)
    moreover have "\<forall>p\<in>set (ps @ [q]). ?d q \<le> ?d p"
      using le_r inv dq by (auto simp: scanInv_def intro: number_le_trans number_le_refl)
    moreover have "\<exists>i<length (ps @ [q]). (ps @ [q]) ! i = q
        \<and> (\<forall>j. i < j \<and> j < length (ps @ [q]) \<longrightarrow> \<not> ?d ((ps @ [q]) ! j) \<le> ?d q)"
      by (rule exI [of _ "length ps"]) auto
    ultimately show ?thesis
      using dq unfolding res' scanInv_def by simp
  next
    case False
    then have res': "nearestLoop px py (ps @ [q]) (n, ?d n) = ?res"
      by (simp add: nearestLoop_snoc)
    from False inv have nle: "\<not> ?d q \<le> ?d (fst ?res)" by (simp add: scanInv_def)
    from inv have rn: "?d (fst ?res) \<noteq> NaN" by (simp add: scanInv_def)
    have le_q: "?d (fst ?res) \<le> ?d q"
      using number_le_total [OF dq rn nle] .
    have all: "\<forall>p\<in>set (ps @ [q]). ?d (fst ?res) \<le> ?d p"
      using le_q inv by (auto simp: scanInv_def)
    from inv consider
      (keep) "fst ?res = n" "\<forall>p\<in>set ps. \<not> ?d p \<le> ?d n"
      | (upd) i where "i < length ps" "ps ! i = fst ?res"
          "\<forall>j. i < j \<and> j < length ps \<longrightarrow> \<not> ?d (ps ! j) \<le> ?d (fst ?res)"
      by (auto simp: scanInv_def)
    then have last: "(fst ?res = n \<and> (\<forall>p\<in>set (ps @ [q]). \<not> ?d p \<le> ?d n))
        \<or> (\<exists>i<length (ps @ [q]). (ps @ [q]) ! i = fst ?res
              \<and> (\<forall>j. i < j \<and> j < length (ps @ [q])
                    \<longrightarrow> \<not> ?d ((ps @ [q]) ! j) \<le> ?d (fst ?res)))"
    proof cases
      case keep
      with nle show ?thesis by auto
    next
      case upd
      have "\<forall>j. i < j \<and> j < length (ps @ [q])
              \<longrightarrow> \<not> ?d ((ps @ [q]) ! j) \<le> ?d (fst ?res)"
      proof (intro allI impI)
        fix j assume j: "i < j \<and> j < length (ps @ [q])"
        show "\<not> ?d ((ps @ [q]) ! j) \<le> ?d (fst ?res)"
        proof (cases "j < length ps")
          case True
          with j upd(3) show ?thesis by (simp add: nth_append)
        next
          case False
          with j have "j = length ps" by simp
          with nle show ?thesis by simp
        qed
      qed
      moreover have "(ps @ [q]) ! i = fst ?res" using upd(1,2) by (simp add: nth_append)
      moreover have "i < length (ps @ [q])" using upd(1) by simp
      ultimately show ?thesis by blast
    qed
    from inv have "snd ?res = ?d (fst ?res)" "?d (fst ?res) \<le> ?d n"
      by (simp_all add: scanInv_def)
    with rn all last show ?thesis
      unfolding res' scanInv_def by blast
  qed
qed

lemma nearestLoop_mem: "fst (nearestLoop px py ps (n, m)) \<in> insert n (set ps)"
  by (induction ps arbitrary: n m) (auto simp: Let_def)

text \<open>
  Claim C4. For every query point, \<open>getNearestPoint\<close> returns none exactly when the
  trajectory has no sample, and otherwise one of the recorded samples. When the distance
  of every sample to the query point is a number, the sample returned is no farther from
  the query point than any sample, and it is the last such sample in recording order:
  every sample recorded after it is strictly farther. So when the times of the samples
  increase strictly in recording order, every other sample at the same distance has an
  earlier time.
\<close>

theorem C4_getNearestPoint_nearest:
  "(getNearestPoint this px py = None \<longleftrightarrow> dataPoints this = [])
   \<and> (\<forall>r. getNearestPoint this px py = Some r \<longrightarrow> r \<in> set (dataPoints this))
   \<and> ((\<forall>q\<in>set (dataPoints this). distanceXY q px py \<noteq> NaN) \<and> dataPoints this \<noteq> [] \<longrightarrow>
         (\<exists>r i. getNearestPoint this px py = Some r
            \<and> i < length (dataPoints this) \<and> dataPoints this ! i = r
            \<and> (\<forall>q\<in>set (dataPoints this). distanceXY r px py \<le> distanceXY q px py)
            \<and> (\<forall>j. i < j \<and> j < length (dataPoints this)
                  \<longrightarrow> \<not> distanceXY (dataPoints this ! j) px py \<le> distanceXY r px py)
            \<and> (sorted_wrt (\<lambda>a b. time a < time b) (dataPoints this)
                  \<longrightarrow> (\<forall>q\<in>set (dataPoints this).
                        distanceXY q px py = distanceXY r px py
                        \<longrightarrow> q = r \<or> time q < time r))))"
proof (cases "dataPoints this")
  case Nil
  then show ?thesis by (simp add: getNearestPoint_def)
next
  case (Cons first rest)
  let ?ps = "dataPoints this"
  let ?d = "\<lambda>p. distanceXY p px py"
  let ?res = "nearestLoop px py ?ps (first, ?d first)"
  let ?r = "fst ?res"
  have get: "getNearestPoint this px py = Some ?r"
    using Cons by (simp add: getNearestPoint_def)
  have first: "first \<in> set ?ps" using Cons by simp
  have mem: "?r \<in> set ?ps"
    using nearestLoop_mem [of px py ?ps first "?d first"] first by auto
  have nearest: "\<exists>r i. getNearestPoint this px py = Some r
            \<and> i < length ?ps \<and> ?ps ! i = r
            \<and> (\<forall>q\<in>set ?ps. ?d r \<le> ?d q)
            \<and> (\<forall>j. i < j \<and> j < length ?ps \<longrightarrow> \<not> ?d (?ps ! j) \<le> ?d r)
            \<and> (sorted_wrt (\<lambda>a b. time a < time b) ?ps
                  \<longrightarrow> (\<forall>q\<in>set ?ps. ?d q = ?d r \<longrightarrow> q = r \<or> time q < time r))"
    if numbers: "\<forall>q\<in>set ?ps. ?d q \<noteq> NaN"
  proof -
    from first numbers have dfirst: "?d first \<noteq> NaN" by blast
    have inv: "scanInv px py first ?ps ?res"
      using nearestLoop_inv [OF dfirst numbers] .
    then have min: "\<forall>q\<in>set ?ps. ?d ?r \<le> ?d q" by (simp add: scanInv_def)
    have "\<not> (\<forall>q\<in>set ?ps. \<not> ?d q \<le> ?d first)"
      using first number_le_refl [OF dfirst] by blast
    with inv obtain i where i: "i < length ?ps" "?ps ! i = ?r"
      and later: "\<forall>j. i < j \<and> j < length ?ps \<longrightarrow> \<not> ?d (?ps ! j) \<le> ?d ?r"
      unfolding scanInv_def by blast
    have tie: "\<forall>q\<in>set ?ps. ?d q = ?d ?r \<longrightarrow> q = ?r \<or> time q < time ?r"
      if srt: "sorted_wrt (\<lambda>a b. time a < time b) ?ps"
    proof (intro ballI impI)
      fix q assume q: "q \<in> set ?ps" and eq: "?d q = ?d ?r"
      from q obtain j where j: "j < length ?ps" "?ps ! j = q"
        by (auto simp: in_set_conv_nth)
      from q numbers have "?d q \<noteq> NaN" by blast
      then have "?d q \<le> ?d ?r" using eq number_le_refl by metis
      with later j have "\<not> i < j" by blast
      then consider "j = i" | "j < i" by linarith
      then show "q = ?r \<or> time q < time ?r"
      proof cases
        case 1
        with i j show ?thesis by simp
      next
        case 2
        have "time (?ps ! j) < time (?ps ! i)"
          using sorted_wrt_nth_less [OF srt 2 i(1)] .
        with i j show ?thesis by simp
      qed
    qed
    from get i min later tie show ?thesis by blast
  qed
  show ?thesis
  proof (intro conjI allI impI)
    show "(getNearestPoint this px py = None) = (dataPoints this = [])"
      using get Cons by simp
  next
    fix r assume "getNearestPoint this px py = Some r"
    with get mem show "r \<in> set ?ps" by simp
  next
    assume "(\<forall>q\<in>set ?ps. ?d q \<noteq> NaN) \<and> ?ps \<noteq> []"
    then have "\<forall>q\<in>set ?ps. ?d q \<noteq> NaN" by (rule conjunct1)
    then show "\<exists>r i. getNearestPoint this px py = Some r
            \<and> i < length ?ps \<and> ?ps ! i = r
            \<and> (\<forall>q\<in>set ?ps. ?d r \<le> ?d q)
            \<and> (\<forall>j. i < j \<and> j < length ?ps \<longrightarrow> \<not> ?d (?ps ! j) \<le> ?d r)
            \<and> (sorted_wrt (\<lambda>a b. time a < time b) ?ps
                  \<longrightarrow> (\<forall>q\<in>set ?ps. ?d q = ?d r \<longrightarrow> q = r \<or> time q < time r))"
      by (rule nearest)
  qed
qed

theorem C4_getNearestPoint_nearest_witness:
  "dataPoints tiedProjectile
     = [\<lparr>time = Num 0.1, position = (Num 1, Num 0), apex = False\<rparr>,
        \<lparr>time = Num 0.2, position = (Num 0, Num 1), apex = False\<rparr>]
   \<and> distanceXY \<lparr>time = Num 0.1, position = (Num 1, Num 0), apex = False\<rparr> (Num 0) (Num 0)
       = Num 1
   \<and> distanceXY \<lparr>time = Num 0.2, position = (Num 0, Num 1), apex = False\<rparr> (Num 0) (Num 0)
       = Num 1
   \<and> sorted_wrt (\<lambda>a b. time a < time b) (dataPoints tiedProjectile)
   \<and> getNearestPoint tiedProjectile (Num 0) (Num 0)
       = Some \<lparr>time = Num 0.2, position = (Num 0, Num 1), apex = False\<rparr>
   \<and> getNearestPoint (tiedProjectile\<lparr>dataPoints := []\<rparr>) (Num 0) (Num 0) = None"
proof -
  have h: "\<forall>q\<in>set (dataPoints tiedProjectile). distanceXY q (Num 0) (Num 0) \<noteq> NaN"
    by (simp add: tiedProjectile_def distanceXY_def distance_def minus_number_def)
  have s: "sorted_wrt (\<lambda>a b. time a < time b) (dataPoints tiedProjectile)"
    by (simp add: tiedProjectile_def)
  have ne: "dataPoints tiedProjectile \<noteq> []" by (simp add: tiedProjectile_def)
  have "(\<forall>q\<in>set (dataPoints tiedProjectile). distanceXY q (Num 0) (Num 0) \<noteq> NaN)
      \<and> dataPoints tiedProjectile \<noteq> []"
    using h ne by (rule conjI)
  from mp [OF conjunct2 [OF conjunct2
    [OF C4_getNearestPoint_nearest [of tiedProjectile "Num 0" "Num 0"]]] this]
  obtain r i where r: "getNearestPoint tiedProjectile (Num 0) (Num 0) = Some r"
    and i: "i < length (dataPoints tiedProjectile)" "dataPoints tiedProjectile ! i = r"
    and later: "\<forall>j. i < j \<and> j < length (dataPoints tiedProjectile)
          \<longrightarrow> \<not> distanceXY (dataPoints tiedProjectile ! j) (Num 0) (Num 0)
                \<le> distanceXY r (Num 0) (Num 0)"
    and least: "\<forall>q\<in>set (dataPoints tiedProjectile).
          distanceXY r (Num 0) (Num 0) \<le> distanceXY q (Num 0) (Num 0)"
    by blast
  have d: "\<forall>q\<in>set (dataPoints tiedProjectile). distanceXY q (Num 0) (Num 0) = Num 1"
    by (simp add: tiedProjectile_def distanceXY_def distance_def minus_number_def)
  have "i = 1"
  proof (rule ccontr)
    assume "i \<noteq> 1"
    with i(1) have i0: "i = 0" by (simp add: tiedProjectile_def)
    have "i < 1 \<and> 1 < length (dataPoints tiedProjectile)"
      using i0 by (simp add: tiedProjectile_def)
    with later have "\<not> distanceXY (dataPoints tiedProjectile ! 1) (Num 0) (Num 0)
                \<le> distanceXY r (Num 0) (Num 0)"
      by blast
    moreover have "distanceXY (dataPoints tiedProjectile ! 1) (Num 0) (Num 0) = Num 1"
      by (simp add: tiedProjectile_def distanceXY_def distance_def minus_number_def)
    moreover have "r \<in> set (dataPoints tiedProjectile)"
      using nth_mem [OF i(1)] i(2) by simp
    with d have "distanceXY r (Num 0) (Num 0) = Num 1" by blast
    ultimately show False by simp
  qed
  with i(2) r have e: "getNearestPoint tiedProjectile (Num 0) (Num 0)
       = Some \<lparr>time = Num 0.2, position = (Num 0, Num 1), apex = False\<rparr>"
    by (simp add: tiedProjectile_def)
  from C4_getNearestPoint_nearest [of "tiedProjectile\<lparr>dataPoints := []\<rparr>" "Num 0" "Num 0"]
  have m: "getNearestPoint (tiedProjectile\<lparr>dataPoints := []\<rparr>) (Num 0) (Num 0) = None"
    by simp
  show ?thesis using s e m
    by (simp add: tiedProjectile_def distanceXY_def distance_def minus_number_def)
qed

section \<open>Matching samples to the probe\<close>

lemmas example_defs = exampleTracer_def exampleTrajectory_def apexSample_def risingSample_def
  farSample_def passingSample_def offGridSample_def

lemmas tracer_eval = withinSensingRadius_def apexQualifies_def nearestOf_def nearestQualifies_def
  yieldsMatch_def pointIsReadable_def SENSING_RADIUS_def distance_def distanceXY_def
  getNearestPoint_def minus_number_def roundSymmetric_def Let_def sqrt_hundredth

text \<open>One round of the loop of \<open>updateData\<close>, in the tracer's vocabulary.\<close>

lemma updateDataLoop_Cons:
  "updateDataLoop T this (u # us) =
     (if apexQualifies this u then this\<lparr>dataPointProperty := apexPoint u\<rparr>
      else if nearestQualifies T this u then this\<lparr>dataPointProperty := nearestOf this u\<rparr>
      else updateDataLoop T this us)"
  by (cases "apexPoint u";
      cases "getNearestPoint u (fst (positionProperty this)) (snd (positionProperty this))")
    (auto simp: apexQualifies_def nearestQualifies_def nearestOf_def withinSensingRadius_def
       Let_def)

lemma updateDataLoop_skip:
  "\<forall>w\<in>set ws. \<not> yieldsMatch T this w \<Longrightarrow>
     updateDataLoop T this (ws @ rest) = updateDataLoop T this rest"
proof (induction ws)
  case Nil
  show ?case by simp
next
  case (Cons w ws)
  then have "\<not> apexQualifies this w" "\<not> nearestQualifies T this w"
    by (simp_all add: yieldsMatch_def)
  with Cons show ?case
    by (simp only: append_Cons updateDataLoop_Cons if_False) simp
qed

lemma updateDataLoop_None:
  "dataPointProperty (updateDataLoop T this us) = None
     \<longleftrightarrow> (\<forall>u\<in>set us. \<not> yieldsMatch T this u)"
proof (induction us)
  case Nil
  show ?case by simp
next
  case (Cons u us)
  show ?case
  proof (cases "apexQualifies this u")
    case True
    then show ?thesis
      by (auto simp only: updateDataLoop_Cons yieldsMatch_def apexQualifies_def
            split: option.splits) simp_all
  next
    case False
    note noApex = this
    show ?thesis
    proof (cases "nearestQualifies T this u")
      case True
      with noApex show ?thesis
        by (auto simp: updateDataLoop_Cons yieldsMatch_def nearestQualifies_def
            simp del: updateDataLoop.simps split: option.splits)
    next
      case False
      with noApex Cons show ?thesis
        by (simp add: updateDataLoop_Cons yieldsMatch_def del: updateDataLoop.simps)
    qed
  qed
qed

lemma updateDataLoop_Some:
  "dataPointProperty (updateDataLoop T this us) = Some p \<Longrightarrow>
     \<exists>u\<in>set us. (apexPoint u = Some p \<and> withinSensingRadius this p)
       \<or> (\<not> apexQualifies this u \<and> nearestOf this u = Some p
           \<and> pointIsReadable T (Some p) \<and> withinSensingRadius this p)"
proof (induction us)
  case Nil
  then show ?case by simp
next
  case (Cons u us)
  show ?case
  proof (cases "apexQualifies this u")
    case True
    with Cons.prems show ?thesis
      by (auto simp: updateDataLoop_Cons apexQualifies_def
            simp del: updateDataLoop.simps split: option.splits)
  next
    case False
    note noApex = this
    show ?thesis
    proof (cases "nearestQualifies T this u")
      case True
      with noApex Cons.prems show ?thesis
        by (auto simp: updateDataLoop_Cons nearestQualifies_def
            simp del: updateDataLoop.simps split: option.splits)
    next
      case False
      with noApex Cons show ?thesis
        by (simp add: updateDataLoop_Cons del: updateDataLoop.simps)
    qed
  qed
qed

text \<open>
  Claim C7, as amended. Trajectories are examined in reverse creation order, and the
  first trajectory that yields a match wins, by its apex or else by its nearest sample:
  when no trajectory created after \<open>u\<close> yields a match and \<open>u\<close> does, \<open>updateData\<close>
  sets the matched sample to the apex sample of \<open>u\<close> if that is within the sensing
  radius of the probe, and otherwise to the nearest sample of \<open>u\<close>, which is then readable
  and within the radius; it changes nothing else. So whenever the probe lies within
  the sensing radius of the apex sample of a trajectory, and no trajectory created after
  that one yields a match, \<open>updateData\<close> matches that apex sample, whatever the other
  samples of the trajectory are: even if one of them is strictly closer to the probe.
\<close>

theorem C7_updateData_first_match:
  assumes "trajectories this = older @ u # newer"
    and "\<forall>w\<in>set newer. \<not> yieldsMatch T this w"
  shows "(yieldsMatch T this u \<longrightarrow>
            updateData T this
              = this\<lparr>dataPointProperty :=
                       if apexQualifies this u then apexPoint u else nearestOf this u\<rparr>)
    \<and> (\<forall>a. apexPoint u = Some a
             \<and> distance (position a) (positionProperty this) \<le> SENSING_RADIUS
          \<longrightarrow> dataPointProperty (updateData T this) = Some a)
    \<and> (\<not> apexQualifies this u \<longrightarrow>
          (\<forall>s. nearestOf this u = Some s \<and> pointIsReadable T (Some s)
                 \<and> distance (position s) (positionProperty this) \<le> SENSING_RADIUS
             \<longrightarrow> dataPointProperty (updateData T this) = Some s))"
proof -
  have "\<forall>w\<in>set (rev newer). \<not> yieldsMatch T this w" using assms(2) by simp
  then have "updateDataLoop T this (rev newer @ u # rev older)
      = updateDataLoop T this (u # rev older)"
    by (rule updateDataLoop_skip)
  then have loop: "updateData T this = updateDataLoop T this (u # rev older)"
    using assms(1) by (simp add: updateData_def del: updateDataLoop.simps)
  show ?thesis
  proof (intro conjI allI impI)
    assume "yieldsMatch T this u"
    then show "updateData T this
        = this\<lparr>dataPointProperty :=
                 if apexQualifies this u then apexPoint u else nearestOf this u\<rparr>"
      unfolding loop updateDataLoop_Cons by (auto simp: yieldsMatch_def)
  next
    fix a
    assume "apexPoint u = Some a
      \<and> distance (position a) (positionProperty this) \<le> SENSING_RADIUS"
    then have "apexQualifies this u" "apexPoint u = Some a"
      by (simp_all add: apexQualifies_def withinSensingRadius_def)
    then show "dataPointProperty (updateData T this) = Some a"
      unfolding loop updateDataLoop_Cons by simp
  next
    fix s
    assume na: "\<not> apexQualifies this u"
      and "nearestOf this u = Some s \<and> pointIsReadable T (Some s)
        \<and> distance (position s) (positionProperty this) \<le> SENSING_RADIUS"
    then have "nearestQualifies T this u" "nearestOf this u = Some s"
      by (simp_all add: nearestQualifies_def withinSensingRadius_def)
    with na show "dataPointProperty (updateData T this) = Some s"
      unfolding loop updateDataLoop_Cons by simp
  qed
qed

theorem C7_updateData_first_match_witness:
  "trajectories (exampleTracer [exampleTrajectory [risingSample, apexSample] (Some apexSample),
                                exampleTrajectory [farSample] None])
     = [] @ exampleTrajectory [risingSample, apexSample] (Some apexSample)
          # [exampleTrajectory [farSample] None]
   \<and> distance (position apexSample) (Num 0, Num 5) \<le> SENSING_RADIUS
   \<and> \<not> yieldsMatch 100
         (exampleTracer [exampleTrajectory [risingSample, apexSample] (Some apexSample),
                         exampleTrajectory [farSample] None])
         (exampleTrajectory [farSample] None)
   \<and> distanceXY risingSample (Num 0) (Num 5) < distanceXY apexSample (Num 0) (Num 5)
   \<and> dataPointProperty (updateData 100
        (exampleTracer [exampleTrajectory [risingSample, apexSample] (Some apexSample),
                        exampleTrajectory [farSample] None])) = Some apexSample
   \<and> trajectories (exampleTracer [exampleTrajectory [risingSample, apexSample] (Some apexSample),
                                exampleTrajectory [passingSample] None])
     = [exampleTrajectory [risingSample, apexSample] (Some apexSample)]
          @ exampleTrajectory [passingSample] None # []
   \<and> \<not> apexQualifies
         (exampleTracer [exampleTrajectory [risingSample, apexSample] (Some apexSample),
                         exampleTrajectory [passingSample] None])
         (exampleTrajectory [passingSample] None)
   \<and> yieldsMatch 100
         (exampleTracer [exampleTrajectory [risingSample, apexSample] (Some apexSample),
                         exampleTrajectory [passingSample] None])
         (exampleTrajectory [passingSample] None)
   \<and> updateData 100
        (exampleTracer [exampleTrajectory [risingSample, apexSample] (Some apexSample),
                        exampleTrajectory [passingSample] None])
       = (exampleTracer [exampleTrajectory [risingSample, apexSample] (Some apexSample),
                         exampleTrajectory [passingSample] None])
            \<lparr>dataPointProperty := Some passingSample\<rparr>"
proof -
  let ?u = "exampleTrajectory [risingSample, apexSample] (Some apexSample)"
  let ?w = "exampleTrajectory [farSample] None"
  let ?v = "exampleTrajectory [passingSample] None"
  let ?t = "exampleTracer [?u, ?w]"
  let ?s = "exampleTracer [?u, ?v]"
  have 1: "trajectories ?t = [] @ ?u # [?w]" by (simp add: exampleTracer_def)
  have 2: "apexPoint ?u = Some apexSample" by (simp add: exampleTrajectory_def)
  have 3: "distance (position apexSample) (positionProperty ?t) \<le> SENSING_RADIUS"
    by (simp add: example_defs tracer_eval)
  have 4: "\<forall>w\<in>set [?w]. \<not> yieldsMatch 100 ?t w"
    by (simp add: example_defs tracer_eval)
  have 5: "distanceXY risingSample (Num 0) (Num 5) < distanceXY apexSample (Num 0) (Num 5)"
    by (simp add: example_defs tracer_eval)
  have apexCase: "dataPointProperty (updateData 100 ?t) = Some apexSample"
    using C7_updateData_first_match [OF 1 4] 2 3 by blast
  have 6: "trajectories ?s = [?u] @ ?v # []" by (simp add: exampleTracer_def)
  have 7: "\<forall>w\<in>set []. \<not> yieldsMatch 100 ?s w" by simp
  have 8: "\<not> apexQualifies ?s ?v" by (simp add: example_defs tracer_eval)
  have 9: "yieldsMatch 100 ?s ?v" by (simp add: example_defs tracer_eval)
  have 10: "nearestOf ?s ?v = Some passingSample" by (simp add: example_defs tracer_eval)
  have "updateData 100 ?s
      = ?s\<lparr>dataPointProperty := if apexQualifies ?s ?v then apexPoint ?v else nearestOf ?s ?v\<rparr>"
    using C7_updateData_first_match [OF 6 7] 9 by blast
  then have nearestCase: "updateData 100 ?s = ?s\<lparr>dataPointProperty := Some passingSample\<rparr>"
    using 8 10 by simp
  have radius: "distance (position apexSample) (Num 0, Num 5) \<le> SENSING_RADIUS"
    using 3 by (simp add: exampleTracer_def)
  from 1 radius 4 5 apexCase 6 8 9 nearestCase show ?thesis by simp
qed

text \<open>
  Claim C7 as stated fails when a trajectory created later yields a match by its
  nearest sample. The probe at (0, 5) is 0.1 away from the apex of the first trajectory;
  the second trajectory, created later and still rising, has a sample at (0, 5) at a time
  of 300 ms, which is readable. \<open>updateData\<close> matches that sample, not the apex.
\<close>

theorem C7_updateData_first_match_counterexample:
  "distance (position apexSample)
      (positionProperty
         (exampleTracer [exampleTrajectory [risingSample, apexSample] (Some apexSample),
                         exampleTrajectory [passingSample] None]))
     \<le> SENSING_RADIUS
   \<and> dataPointProperty (updateData 100
        (exampleTracer [exampleTrajectory [risingSample, apexSample] (Some apexSample),
                        exampleTrajectory [passingSample] None])) = Some passingSample
   \<and> passingSample \<noteq> apexSample"
  by (simp add: updateData_def example_defs tracer_eval)

text \<open>
  Claim C8, as amended. A sample that \<open>updateData\<close> matches is, for some trajectory,
  either its apex sample within the sensing radius of the probe or, that apex not
  qualifying, its nearest sample, which is then within the sensing radius and readable:
  its apex flag is set, or its y-coordinate is exactly 0, or its time in milliseconds,
  rounded to the nearest integer, is a multiple of the minor interval. The result is
  none exactly when no trajectory yields a match.
\<close>

theorem C8_updateData_match:
  "(\<forall>p. dataPointProperty (updateData T this) = Some p \<longrightarrow>
      (\<exists>u\<in>set (trajectories this).
         (apexPoint u = Some p \<and> withinSensingRadius this p)
         \<or> (\<not> apexQualifies this u \<and> nearestOf this u = Some p
             \<and> (apex p \<or> snd (position p) = Num 0
                 \<or> toFixedNumber (time p * Num 1000) 0 mod Num T = Num 0)
             \<and> withinSensingRadius this p)))
   \<and> (dataPointProperty (updateData T this) = None
        \<longleftrightarrow> (\<forall>u\<in>set (trajectories this). \<not> yieldsMatch T this u))"
proof (intro conjI allI impI)
  fix p assume "dataPointProperty (updateData T this) = Some p"
  then have "dataPointProperty (updateDataLoop T this (rev (trajectories this))) = Some p"
    by (simp add: updateData_def)
  from updateDataLoop_Some [OF this]
  show "\<exists>u\<in>set (trajectories this).
         (apexPoint u = Some p \<and> withinSensingRadius this p)
         \<or> (\<not> apexQualifies this u \<and> nearestOf this u = Some p
             \<and> (apex p \<or> snd (position p) = Num 0
                 \<or> toFixedNumber (time p * Num 1000) 0 mod Num T = Num 0)
             \<and> withinSensingRadius this p)"
    by (simp add: pointIsReadable_def)
next
  show "dataPointProperty (updateData T this) = None
        \<longleftrightarrow> (\<forall>u\<in>set (trajectories this). \<not> yieldsMatch T this u)"
    by (simp add: updateData_def updateDataLoop_None)
qed

theorem C8_updateData_match_witness:
  "dataPointProperty (updateData 100 (exampleTracer [exampleTrajectory [passingSample] None]))
     = Some passingSample
   \<and> \<not> apexQualifies (exampleTracer [exampleTrajectory [passingSample] None])
          (exampleTrajectory [passingSample] None)
   \<and> nearestOf (exampleTracer [exampleTrajectory [passingSample] None])
        (exampleTrajectory [passingSample] None) = Some passingSample
   \<and> toFixedNumber (time passingSample * Num 1000) 0 mod Num 100 = Num 0
   \<and> withinSensingRadius (exampleTracer [exampleTrajectory [passingSample] None]) passingSample
   \<and> \<not> yieldsMatch 100 (exampleTracer [exampleTrajectory [farSample] None])
          (exampleTrajectory [farSample] None)
   \<and> dataPointProperty (updateData 100 (exampleTracer [exampleTrajectory [farSample] None]))
       = None"
proof -
  let ?t = "exampleTracer [exampleTrajectory [passingSample] None]"
  let ?f = "exampleTracer [exampleTrajectory [farSample] None]"
  have m: "dataPointProperty (updateData 100 ?t) = Some passingSample"
    by (simp add: updateData_def example_defs tracer_eval)
  have n: "\<forall>u\<in>set (trajectories ?f). \<not> yieldsMatch 100 ?f u"
    by (simp add: example_defs tracer_eval)
  from C8_updateData_match [of 100 ?t] m
  have "\<exists>u\<in>set (trajectories ?t).
         (apexPoint u = Some passingSample \<and> withinSensingRadius ?t passingSample)
         \<or> (\<not> apexQualifies ?t u \<and> nearestOf ?t u = Some passingSample
             \<and> (apex passingSample \<or> snd (position passingSample) = Num 0
                 \<or> toFixedNumber (time passingSample * Num 1000) 0 mod Num 100 = Num 0)
             \<and> withinSensingRadius ?t passingSample)"
    by blast
  then have a: "\<not> apexQualifies ?t (exampleTrajectory [passingSample] None)
      \<and> nearestOf ?t (exampleTrajectory [passingSample] None) = Some passingSample
      \<and> toFixedNumber (time passingSample * Num 1000) 0 mod Num 100 = Num 0
      \<and> withinSensingRadius ?t passingSample"
    by (simp add: exampleTracer_def exampleTrajectory_def passingSample_def)
  from C8_updateData_match [of 100 ?f] n
  have "dataPointProperty (updateData 100 ?f) = None" by blast
  with m a n show ?thesis by (simp add: exampleTracer_def)
qed

text \<open>
  Claim C8 as stated fails on the time of a readable sample: the source rounds the time
  in milliseconds before it takes the remainder. The only sample of the only trajectory
  is at the probe, above the ground, not an apex, at a time of 100.4 ms, which is not a
  multiple of a minor interval of 100 ms; \<open>updateData\<close> matches it, since 100.4 rounds
  to 100.
\<close>

theorem C8_updateData_match_counterexample:
  "dataPointProperty (updateData 100 (exampleTracer [exampleTrajectory [offGridSample] None]))
     = Some offGridSample
   \<and> \<not> apexQualifies (exampleTracer [exampleTrajectory [offGridSample] None])
          (exampleTrajectory [offGridSample] None)
   \<and> time offGridSample * Num 1000 = Num 100.4
   \<and> \<not> spec_readable 100 offGridSample"
  by (simp add: updateData_def spec_readable_def example_defs tracer_eval)

text \<open>
  Claim C10. \<open>updateDataIfWithinRange\<close> sets the matched sample of the tracer to the
  given point when the point is present, readable and within the sensing radius of the
  probe, and in every other case leaves the matched sample as it was; it changes no
  other field. In particular a tracer with a match still has one afterwards: unlike
  \<open>updateData\<close>, which with no trajectory left resets the match to none, it never
  resets it.
\<close>

theorem C10_updateDataIfWithinRange_keeps:
  "dataPointProperty (updateDataIfWithinRange T point this)
     = (if \<exists>p. point = Some p \<and> pointIsReadable T point \<and> withinSensingRadius this p
        then point else dataPointProperty this)
   \<and> positionProperty (updateDataIfWithinRange T point this) = positionProperty this
   \<and> isActiveProperty (updateDataIfWithinRange T point this) = isActiveProperty this
   \<and> trajectories (updateDataIfWithinRange T point this) = trajectories this
   \<and> (dataPointProperty this \<noteq> None
        \<longrightarrow> dataPointProperty (updateDataIfWithinRange T point this) \<noteq> None)
   \<and> (trajectories this = [] \<longrightarrow> dataPointProperty (updateData T this) = None)"
  by (cases point)
    (auto simp: updateDataIfWithinRange_def updateData_def withinSensingRadius_def
       pointIsReadable_def)

theorem C10_updateDataIfWithinRange_keeps_witness:
  "dataPointProperty ((exampleTracer [])\<lparr>dataPointProperty := Some passingSample\<rparr>) \<noteq> None
   \<and> trajectories ((exampleTracer [])\<lparr>dataPointProperty := Some passingSample\<rparr>) = []
   \<and> dataPointProperty (updateDataIfWithinRange 100 (Some farSample)
        ((exampleTracer [])\<lparr>dataPointProperty := Some passingSample\<rparr>)) = Some passingSample
   \<and> dataPointProperty (updateDataIfWithinRange 100 None
        ((exampleTracer [])\<lparr>dataPointProperty := Some passingSample\<rparr>)) = Some passingSample
   \<and> dataPointProperty (updateDataIfWithinRange 100 (Some apexSample)
        ((exampleTracer [])\<lparr>dataPointProperty := Some passingSample\<rparr>)) = Some apexSample
   \<and> dataPointProperty (updateData 100
        ((exampleTracer [])\<lparr>dataPointProperty := Some passingSample\<rparr>)) = None"
proof -
  let ?t = "(exampleTracer [])\<lparr>dataPointProperty := Some passingSample\<rparr>"
  have far: "\<not> (\<exists>p. Some farSample = Some p \<and> pointIsReadable 100 (Some farSample)
                \<and> withinSensingRadius ?t p)"
    by (simp add: example_defs tracer_eval)
  have ap: "\<exists>p. Some apexSample = Some p \<and> pointIsReadable 100 (Some apexSample)
                \<and> withinSensingRadius ?t p"
    by (simp add: example_defs tracer_eval)
  have e: "trajectories ?t = []" by (simp add: exampleTracer_def)
  have d: "dataPointProperty ?t = Some passingSample" by (simp add: exampleTracer_def)
  have 1: "dataPointProperty (updateDataIfWithinRange 100 (Some farSample) ?t)
      = dataPointProperty ?t"
    using C10_updateDataIfWithinRange_keeps [of 100 "Some farSample" ?t] far by auto
  have 2: "dataPointProperty (updateDataIfWithinRange 100 None ?t) = dataPointProperty ?t"
    using C10_updateDataIfWithinRange_keeps [of 100 None ?t] by auto
  have 3: "dataPointProperty (updateDataIfWithinRange 100 (Some apexSample) ?t)
      = Some apexSample"
    using C10_updateDataIfWithinRange_keeps [of 100 "Some apexSample" ?t] ap by auto
  have 4: "dataPointProperty (updateData 100 ?t) = None"
    using C10_updateDataIfWithinRange_keeps [of 100 None ?t] e by blast
  from 1 2 3 4 d e show ?thesis by simp
qed

end
